theory Spec2Isabelle
  imports Main
begin

section \<open>Double-elimination bracket generation and the match delegate\<close>

text \<open>
  A shallow embedding of \<^verbatim>\<open>DoubleEliminationMatchStrategy\<close> (the bracket generator) and
  of \<^verbatim>\<open>MatchDelegate\<close> (the consumer that reacts to a team being added to a group).
  Vectors are lists; \<^verbatim>\<open>std::vector::operator[]\<close> outside the vector is undefined behaviour
  in C++ and is an error value here; exceptions of the collaborators are error values too.
\<close>

subsection \<open>Errors\<close>

datatype error =
    IndexOutOfBounds nat nat  \<comment> \<open>\<^verbatim>\<open>v[i]\<close> with \<open>i \<ge> v.size()\<close>: the index and the size\<close>
  | Exception string          \<comment> \<open>a \<^verbatim>\<open>std::exception\<close> with its \<^verbatim>\<open>what()\<close>\<close>

definition and_then :: "error + 'a \<Rightarrow> ('a \<Rightarrow> error + 'b) \<Rightarrow> error + 'b" where
  "and_then m f = (case m of Inl e \<Rightarrow> Inl e | Inr x \<Rightarrow> f x)"

text \<open>A counted \<^verbatim>\<open>for\<close> loop over the given indices whose body may fail.\<close>

fun for_loop :: "nat list \<Rightarrow> (nat \<Rightarrow> 's \<Rightarrow> error + 's) \<Rightarrow> 's \<Rightarrow> error + 's" where
  "for_loop [] body s = Inr s"
| "for_loop (i # is) body s = and_then (body i s) (for_loop is body)"

subsection \<open>Data model\<close>

datatype BracketType = WINNERS | LOSERS

datatype MatchStatus = PENDING | IN_PROGRESS | COMPLETE

text \<open>
  Modelled from the spec: \<^verbatim>\<open>domain/Match.hpp\<close> is not among the sources. The fields are
  the accessors the generator assigns through; the two advancement references are optional
  (\<open>None\<close> is the spec's "empty/null"), and a default-constructed match has no advancement
  reference and neither flag set.
\<close>

record Match =
  Id :: string
  TournamentId :: string
  GroupId :: string
  Bracket :: BracketType
  RoundNumber :: int
  MatchNumberInRound :: int
  Status :: MatchStatus
  NextMatchWinnerId :: "string option"
  NextMatchLoserId :: "string option"
  IsGrandFinal :: bool
  IsBracketReset :: bool

definition default_Match :: Match where
  "default_Match =
     \<lparr>Id = [], TournamentId = [], GroupId = [], Bracket = WINNERS, RoundNumber = 0,
      MatchNumberInRound = 0, Status = PENDING, NextMatchWinnerId = None,
      NextMatchLoserId = None, IsGrandFinal = False, IsBracketReset = False\<rparr>"

subsection \<open>\<^verbatim>\<open>std::to_string\<close>\<close>

definition digit_char :: "nat \<Rightarrow> char" where
  "digit_char d = ''0123456789'' ! d"

fun to_string_nat :: "nat \<Rightarrow> string" where
  "to_string_nat n =
     (if n < 10 then [digit_char n] else to_string_nat (n div 10) @ [digit_char (n mod 10)])"

declare to_string_nat.simps [simp del]

definition to_string :: "int \<Rightarrow> string" where
  "to_string i = (if i < 0 then ''-'' @ to_string_nat (nat (- i)) else to_string_nat (nat i))"

subsection \<open>The generator\<close>

definition GenerateMatchId :: "string \<Rightarrow> BracketType \<Rightarrow> int \<Rightarrow> int \<Rightarrow> string" where
  "GenerateMatchId tournamentId bracket round matchNumber =
     (let bracketPrefix = (if bracket = WINNERS then ''W'' else ''L'')
      in tournamentId @ ''_'' @ bracketPrefix @ ''R'' @ to_string round @ ''M''
           @ to_string matchNumber)"

text \<open>
  The body of the inner loop of \<^verbatim>\<open>CreateWinnersBracket\<close> and \<^verbatim>\<open>CreateLosersBracket\<close>:
  the two differ in the bracket and in the table of round sizes only. The C++ \<^verbatim>\<open>int\<close>s
  are round numbers up to 10 and match numbers up to 15, so they are integers here, and
  \<^verbatim>\<open>matchNum / 2\<close> on a non-negative number is \<open>div\<close>. The match is pushed with a
  \<open>nextMatchWinnerId\<close> in every round but the last of the table.
\<close>

definition bracket_match ::
  "string \<Rightarrow> string \<Rightarrow> BracketType \<Rightarrow> int list \<Rightarrow> nat \<Rightarrow> nat \<Rightarrow> Match" where
  "bracket_match tournamentId groupId bracket roundSizes roundIdx matchNum =
     (let roundNumber = int roundIdx + 1;
          match = default_Match
            \<lparr>Id := GenerateMatchId tournamentId bracket roundNumber (int matchNum),
             TournamentId := tournamentId,
             GroupId := groupId,
             Bracket := bracket,
             RoundNumber := roundNumber,
             MatchNumberInRound := int matchNum,
             Status := PENDING\<rparr>
      in if roundIdx < length roundSizes - 1
         then match\<lparr>NextMatchWinnerId :=
                Some (GenerateMatchId tournamentId bracket (roundNumber + 1) (int matchNum div 2))\<rparr>
         else match)"

text \<open>The two nested loops: for each round of the table, in order, its matches in order.\<close>

definition bracket_rounds ::
  "string \<Rightarrow> string \<Rightarrow> BracketType \<Rightarrow> int list \<Rightarrow> Match list" where
  "bracket_rounds tournamentId groupId bracket roundSizes =
     concat (map (\<lambda>roundIdx.
               map (bracket_match tournamentId groupId bracket roundSizes roundIdx)
                   [0 ..< nat (roundSizes ! roundIdx)])
             [0 ..< length roundSizes])"

definition CreateWinnersBracket :: "string \<Rightarrow> string \<Rightarrow> Match list" where
  "CreateWinnersBracket tournamentId groupId =
     bracket_rounds tournamentId groupId WINNERS [16, 8, 4, 2, 1]"

definition CreateLosersBracket :: "string \<Rightarrow> string \<Rightarrow> Match list" where
  "CreateLosersBracket tournamentId groupId =
     bracket_rounds tournamentId groupId LOSERS [8, 8, 4, 4, 2, 2, 1, 1, 1]"

text \<open>Reading and writing through \<^verbatim>\<open>operator[]\<close>.\<close>

definition at_vec :: "'a list \<Rightarrow> nat \<Rightarrow> error + 'a" where
  "at_vec v i = (if i < length v then Inr (v ! i) else Inl (IndexOutOfBounds i (length v)))"

definition modify_at :: "'a list \<Rightarrow> nat \<Rightarrow> ('a \<Rightarrow> 'a) \<Rightarrow> error + 'a list" where
  "modify_at v i f =
     (if i < length v then Inr (v[i := f (v ! i)]) else Inl (IndexOutOfBounds i (length v)))"

text \<open>
  \<^verbatim>\<open>winnersMatches[w].NextMatchLoserId() = losersMatches[l].Id();\<close>
  The right-hand side is evaluated first.
\<close>

definition link_loser :: "Match list \<Rightarrow> nat \<Rightarrow> nat \<Rightarrow> Match list \<Rightarrow> error + Match list" where
  "link_loser losersMatches w l winnersMatches =
     and_then (at_vec losersMatches l)
       (\<lambda>loser. modify_at winnersMatches w (\<lambda>m. m\<lparr>NextMatchLoserId := Some (Id loser)\<rparr>))"

text \<open>The four loops of \<^verbatim>\<open>LinkBracketsLoserPaths\<close>, in order.\<close>

definition LinkBracketsLoserPaths_loops :: "Match list \<Rightarrow> Match list \<Rightarrow> error + Match list" where
  "LinkBracketsLoserPaths_loops winnersMatches losersMatches =
     and_then (for_loop [0 ..< 16] (\<lambda>i. link_loser losersMatches i (i div 2)) winnersMatches)
    (\<lambda>w1. and_then (for_loop [0 ..< 8] (\<lambda>i. link_loser losersMatches (16 + i) (8 + i)) w1)
    (\<lambda>w2. and_then (for_loop [0 ..< 4] (\<lambda>i. link_loser losersMatches (24 + i) (16 + i)) w2)
    (\<lambda>w3. for_loop [0 ..< 2] (\<lambda>i. link_loser losersMatches (28 + i) (24 + i)) w3)))"

text \<open>The loops, then the statement for the winners final.\<close>

definition LinkBracketsLoserPaths :: "Match list \<Rightarrow> Match list \<Rightarrow> error + Match list" where
  "LinkBracketsLoserPaths winnersMatches losersMatches =
     and_then (LinkBracketsLoserPaths_loops winnersMatches losersMatches)
       (link_loser losersMatches 30 32)"

definition CreateGrandFinal :: "string \<Rightarrow> string \<Rightarrow> Match list" where
  "CreateGrandFinal tournamentId groupId =
     (let grandFinal1 = default_Match
            \<lparr>Id := GenerateMatchId tournamentId WINNERS 6 0,
             TournamentId := tournamentId,
             GroupId := groupId,
             Bracket := WINNERS,
             RoundNumber := 6,
             MatchNumberInRound := 0,
             Status := PENDING,
             IsGrandFinal := True,
             IsBracketReset := False\<rparr>;
          grandFinal2 = default_Match
            \<lparr>Id := GenerateMatchId tournamentId WINNERS 7 0,
             TournamentId := tournamentId,
             GroupId := groupId,
             Bracket := WINNERS,
             RoundNumber := 7,
             MatchNumberInRound := 0,
             Status := PENDING,
             IsGrandFinal := True,
             IsBracketReset := True\<rparr>;
          grandFinal1 = grandFinal1\<lparr>NextMatchWinnerId := Some (Id grandFinal2)\<rparr>
      in [grandFinal1, grandFinal2])"

text \<open>
  \<^verbatim>\<open>GenerateMatches\<close>: steps 1 to 6 of the source. Step 5 reads
  \<^verbatim>\<open>grandFinalMatches[0]\<close> and writes \<^verbatim>\<open>winnersMatches[30]\<close>, then
  \<^verbatim>\<open>losersMatches[32]\<close>.
\<close>

definition GenerateMatches :: "string \<Rightarrow> string \<Rightarrow> error + Match list" where
  "GenerateMatches tournamentId groupId =
     (let winnersMatches = CreateWinnersBracket tournamentId groupId;
          losersMatches = CreateLosersBracket tournamentId groupId
      in and_then (LinkBracketsLoserPaths winnersMatches losersMatches)
        (\<lambda>winnersMatches.
           let grandFinalMatches = CreateGrandFinal tournamentId groupId
           in and_then (at_vec grandFinalMatches 0)
             (\<lambda>gf1. and_then (modify_at winnersMatches 30
                                 (\<lambda>m. m\<lparr>NextMatchWinnerId := Some (Id gf1)\<rparr>))
             (\<lambda>winnersMatches. and_then (at_vec grandFinalMatches 0)
             (\<lambda>gf1. and_then (modify_at losersMatches 32
                                 (\<lambda>m. m\<lparr>NextMatchWinnerId := Some (Id gf1)\<rparr>))
             (\<lambda>losersMatches.
                Inr (winnersMatches @ losersMatches @ grandFinalMatches)))))))"

subsection \<open>The match delegate\<close>

text \<open>
  Modelled from the spec: \<^verbatim>\<open>event/TeamAddEvent.hpp\<close>, \<^verbatim>\<open>domain/Group.hpp\<close> and
  \<^verbatim>\<open>GroupRepository.hpp\<close> are not among the sources. The event carries the two keys the
  delegate reads, a group exposes its teams (only their number is used), and the group
  lookup returns the group or a null pointer. A collaborator call may throw.
\<close>

record TeamAddEvent =
  tournamentId :: string
  groupId :: string

record 'team Group =
  Teams :: "'team list"

record 'team GroupRepository =
  FindByTournamentIdAndGroupId :: "string \<Rightarrow> string \<Rightarrow> error + 'team Group option"

text \<open>The two operations of \<^verbatim>\<open>IMatchRepository\<close> that the delegate calls.\<close>

record MatchRepository =
  CreateBulk :: "Match list \<Rightarrow> error + string list"
  MatchesExistForTournament :: "string \<Rightarrow> string \<Rightarrow> error + bool"

text \<open>
  The delegate object: its two repositories and its strategy, the latter given by its
  only method. The constructor installs \<^verbatim>\<open>DoubleEliminationMatchStrategy\<close>.
\<close>

record 'team MatchDelegate =
  matchRepository :: MatchRepository
  groupRepository :: "'team GroupRepository"
  matchStrategy :: "string \<Rightarrow> string \<Rightarrow> error + Match list"

definition MatchDelegate_new ::
  "MatchRepository \<Rightarrow> 'team GroupRepository \<Rightarrow> 'team MatchDelegate" where
  "MatchDelegate_new matchRepo groupRepo =
     \<lparr>matchRepository = matchRepo, groupRepository = groupRepo,
      matchStrategy = GenerateMatches\<rparr>"

text \<open>
  What a run of the delegate does besides returning: the lines it prints and the calls it
  makes to its collaborators, in order.
\<close>

datatype event =
    Println string
  | Call_FindByTournamentIdAndGroupId string string
  | Call_MatchesExistForTournament string string
  | Call_GenerateMatches string string
  | Call_CreateBulk "Match list"

text \<open>
  \<^verbatim>\<open>catch (const std::exception& ex) { println(...); throw; }\<close>: an exception is
  reported and thrown again; an out-of-bounds access is not an exception and is not caught.
\<close>

definition catch_rethrow :: "event list \<Rightarrow> error \<Rightarrow> event list \<times> (error + unit)" where
  "catch_rethrow trace e =
     (case e of
        Exception what \<Rightarrow> (trace @ [Println (''ERROR creating matches: '' @ what)], Inl e)
      | IndexOutOfBounds i n \<Rightarrow> (trace, Inl e))"

definition CreateTournamentMatches ::
  "'team MatchDelegate \<Rightarrow> string \<Rightarrow> string \<Rightarrow> event list \<times> (error + unit)" where
  "CreateTournamentMatches d tid gid =
     (case matchStrategy d tid gid of
        Inl e \<Rightarrow> catch_rethrow [Call_GenerateMatches tid gid] e
      | Inr matches \<Rightarrow>
          if length matches \<noteq> 63 then
            ([Call_GenerateMatches tid gid,
              Println (''ERROR: Expected 63 matches, generated ''
                       @ to_string_nat (length matches))],
             Inr ())
          else
            (case CreateBulk (matchRepository d) matches of
               Inl e \<Rightarrow>
                 catch_rethrow
                   [Call_GenerateMatches tid gid, Call_CreateBulk matches] e
             | Inr createdIds \<Rightarrow>
                 if length createdIds \<noteq> 63 then
                   ([Call_GenerateMatches tid gid, Call_CreateBulk matches,
                     Println (''ERROR: Expected to create 63 matches, created ''
                              @ to_string_nat (length createdIds))],
                    Inr ())
                 else
                   ([Call_GenerateMatches tid gid, Call_CreateBulk matches,
                     Println ''Successfully saved 63 matches to database''],
                    Inr ())))"

definition ProcessTeamAddition ::
  "'team MatchDelegate \<Rightarrow> TeamAddEvent \<Rightarrow> event list \<times> (error + unit)" where
  "ProcessTeamAddition d teamAddEvent =
     (let tid = tournamentId teamAddEvent;
          gid = groupId teamAddEvent;
          t0 = [Call_FindByTournamentIdAndGroupId tid gid]
      in case FindByTournamentIdAndGroupId (groupRepository d) tid gid of
           Inl e \<Rightarrow> (t0, Inl e)
         | Inr None \<Rightarrow>
             (t0 @ [Println (''Group not found for tournament: '' @ tid @ '', group: '' @ gid)],
              Inr ())
         | Inr (Some grp) \<Rightarrow>
             let t1 = t0 @ [Println (''Tournament '' @ tid @ '' has ''
                                     @ to_string_nat (length (Teams grp)) @ '' teams'')]
             in if length (Teams grp) = 32 then
                  (let t2 = t1 @ [Call_MatchesExistForTournament tid gid]
                   in case MatchesExistForTournament (matchRepository d) tid gid of
                        Inl e \<Rightarrow> (t2, Inl e)
                      | Inr True \<Rightarrow>
                          (t2 @ [Println (''Matches already exist for tournament: '' @ tid)],
                           Inr ())
                      | Inr False \<Rightarrow>
                          let t3 = t2 @ [Println (''Creating matches for tournament: '' @ tid)]
                          in case CreateTournamentMatches d tid gid of
                               (t4, Inl e) \<Rightarrow> (t3 @ t4, Inl e)
                             | (t4, Inr u) \<Rightarrow>
                                 (t3 @ t4 @
                                  [Println (''Successfully created 63 matches for tournament: ''
                                            @ tid)],
                                  Inr ()))
                else
                  (t1 @ [Println (''Waiting for more teams. Current: ''
                                  @ to_string_nat (length (Teams grp))
                                  @ '', Required: 32'')],
                   Inr ()))"

section \<open>Properties of the generator\<close>

subsection \<open>Evaluation and definedness\<close>

lemmas gen_defs = CreateWinnersBracket_def CreateLosersBracket_def bracket_rounds_def
  bracket_match_def default_Match_def GenerateMatchId_def to_string_def to_string_nat.simps
  digit_char_def Let_def upt_conv_Cons

lemma and_then_Inr [simp]: "and_then (Inr x) f = f x"
  by (simp add: and_then_def)

lemma and_then_Inl [simp]: "and_then (Inl e) f = Inl e"
  by (simp add: and_then_def)

lemma length_CreateWinnersBracket: "length (CreateWinnersBracket t g) = 31"
  by (simp add: CreateWinnersBracket_def bracket_rounds_def)

lemma length_CreateLosersBracket: "length (CreateLosersBracket t g) = 31"
  by (simp add: CreateLosersBracket_def bracket_rounds_def)

lemma length_CreateGrandFinal: "length (CreateGrandFinal t g) = 2"
  by (simp add: CreateGrandFinal_def Let_def)

lemma link_loser_in_range:
  "w < length ws \<Longrightarrow> l < length ls \<Longrightarrow>
   \<exists>ws'. link_loser ls w l ws = Inr ws' \<and> length ws' = length ws"
  by (simp add: link_loser_def at_vec_def modify_at_def)

lemma for_loop_link_loser_defined:
  "\<forall>i \<in> set ixs. wi i < length ws \<and> li i < length ls \<Longrightarrow>
   \<exists>ws'. for_loop ixs (\<lambda>i. link_loser ls (wi i) (li i)) ws = Inr ws' \<and> length ws' = length ws"
proof (induction ixs arbitrary: ws)
  case Nil
  show ?case by simp
next
  case (Cons i ixs)
  from Cons.prems obtain ws1 where
    step: "link_loser ls (wi i) (li i) ws = Inr ws1" and len: "length ws1 = length ws"
    using link_loser_in_range [of "wi i" ws "li i" ls] by auto
  have "\<exists>ws'. for_loop ixs (\<lambda>i. link_loser ls (wi i) (li i)) ws1 = Inr ws' \<and>
          length ws' = length ws1"
    by (rule Cons.IH) (use Cons.prems len in simp)
  with step len show ?case by simp
qed

lemma LinkBracketsLoserPaths_loops_defined:
  assumes w: "length ws = 31" and l: "length ls = 31"
  shows "\<exists>ws'. LinkBracketsLoserPaths_loops ws ls = Inr ws' \<and> length ws' = 31"
proof -
  have "\<forall>i \<in> set [0 ..< 16]. i < length ws \<and> i div 2 < length ls"
    using w l by auto
  then obtain w1 where 1: "for_loop [0 ..< 16] (\<lambda>i. link_loser ls i (i div 2)) ws = Inr w1"
    and l1: "length w1 = 31"
    using for_loop_link_loser_defined [of "[0 ..< 16]" "\<lambda>i. i" ws "\<lambda>i. i div 2" ls] w
    by auto
  have "\<forall>i \<in> set [0 ..< 8]. 16 + i < length w1 \<and> 8 + i < length ls"
    using l1 l by auto
  then obtain w2 where 2: "for_loop [0 ..< 8] (\<lambda>i. link_loser ls (16 + i) (8 + i)) w1 = Inr w2"
    and l2: "length w2 = 31"
    using for_loop_link_loser_defined [of "[0 ..< 8]" "\<lambda>i. 16 + i" w1 "\<lambda>i. 8 + i" ls] l1
    by auto
  have "\<forall>i \<in> set [0 ..< 4]. 24 + i < length w2 \<and> 16 + i < length ls"
    using l2 l by auto
  then obtain w3 where 3: "for_loop [0 ..< 4] (\<lambda>i. link_loser ls (24 + i) (16 + i)) w2 = Inr w3"
    and l3: "length w3 = 31"
    using for_loop_link_loser_defined [of "[0 ..< 4]" "\<lambda>i. 24 + i" w2 "\<lambda>i. 16 + i" ls] l2
    by auto
  have "\<forall>i \<in> set [0 ..< 2]. 28 + i < length w3 \<and> 24 + i < length ls"
    using l3 l by auto
  then obtain w4 where 4: "for_loop [0 ..< 2] (\<lambda>i. link_loser ls (28 + i) (24 + i)) w3 = Inr w4"
    and l4: "length w4 = 31"
    using for_loop_link_loser_defined [of "[0 ..< 2]" "\<lambda>i. 28 + i" w3 "\<lambda>i. 24 + i" ls] l3
    by auto
  from 1 2 3 4 l4 show ?thesis
    by (simp add: LinkBracketsLoserPaths_loops_def)
qed

lemma LinkBracketsLoserPaths_out_of_bounds:
  assumes w: "length ws = 31" and l: "length ls = 31"
  shows "LinkBracketsLoserPaths ws ls = Inl (IndexOutOfBounds 32 31)"
proof -
  obtain ws' where "LinkBracketsLoserPaths_loops ws ls = Inr ws'"
    using LinkBracketsLoserPaths_loops_defined [OF w l] by blast
  then show ?thesis
    using l by (simp add: LinkBracketsLoserPaths_def link_loser_def at_vec_def)
qed

lemma GenerateMatches_out_of_bounds:
  "GenerateMatches t g = Inl (IndexOutOfBounds 32 31)"
  by (simp add: GenerateMatches_def Let_def LinkBracketsLoserPaths_out_of_bounds
      length_CreateWinnersBracket length_CreateLosersBracket)

lemma Id_CreateWinnersBracket:
  "map Id (CreateWinnersBracket t g) = map ((@) t)
     [''_WR1M0'', ''_WR1M1'', ''_WR1M2'', ''_WR1M3'', ''_WR1M4'', ''_WR1M5'', ''_WR1M6'',
      ''_WR1M7'', ''_WR1M8'', ''_WR1M9'', ''_WR1M10'', ''_WR1M11'', ''_WR1M12'', ''_WR1M13'',
      ''_WR1M14'', ''_WR1M15'', ''_WR2M0'', ''_WR2M1'', ''_WR2M2'', ''_WR2M3'', ''_WR2M4'',
      ''_WR2M5'', ''_WR2M6'', ''_WR2M7'', ''_WR3M0'', ''_WR3M1'', ''_WR3M2'', ''_WR3M3'',
      ''_WR4M0'', ''_WR4M1'', ''_WR5M0'']"
  by (simp add: gen_defs)

lemma Id_CreateLosersBracket:
  "map Id (CreateLosersBracket t g) = map ((@) t)
     [''_LR1M0'', ''_LR1M1'', ''_LR1M2'', ''_LR1M3'', ''_LR1M4'', ''_LR1M5'', ''_LR1M6'',
      ''_LR1M7'', ''_LR2M0'', ''_LR2M1'', ''_LR2M2'', ''_LR2M3'', ''_LR2M4'', ''_LR2M5'',
      ''_LR2M6'', ''_LR2M7'', ''_LR3M0'', ''_LR3M1'', ''_LR3M2'', ''_LR3M3'', ''_LR4M0'',
      ''_LR4M1'', ''_LR4M2'', ''_LR4M3'', ''_LR5M0'', ''_LR5M1'', ''_LR6M0'', ''_LR6M1'',
      ''_LR7M0'', ''_LR8M0'', ''_LR9M0'']"
  by (simp add: gen_defs)

lemma Id_CreateGrandFinal:
  "map Id (CreateGrandFinal t g) = map ((@) t) [''_WR6M0'', ''_WR7M0'']"
  by (simp add: CreateGrandFinal_def gen_defs)

lemma distinct_suffixes:
  "distinct
     ([''_WR1M0'', ''_WR1M1'', ''_WR1M2'', ''_WR1M3'', ''_WR1M4'', ''_WR1M5'', ''_WR1M6'',
      ''_WR1M7'', ''_WR1M8'', ''_WR1M9'', ''_WR1M10'', ''_WR1M11'', ''_WR1M12'', ''_WR1M13'',
      ''_WR1M14'', ''_WR1M15'', ''_WR2M0'', ''_WR2M1'', ''_WR2M2'', ''_WR2M3'', ''_WR2M4'',
      ''_WR2M5'', ''_WR2M6'', ''_WR2M7'', ''_WR3M0'', ''_WR3M1'', ''_WR3M2'', ''_WR3M3'',
      ''_WR4M0'', ''_WR4M1'', ''_WR5M0''] @
     [''_LR1M0'', ''_LR1M1'', ''_LR1M2'', ''_LR1M3'', ''_LR1M4'', ''_LR1M5'', ''_LR1M6'',
      ''_LR1M7'', ''_LR2M0'', ''_LR2M1'', ''_LR2M2'', ''_LR2M3'', ''_LR2M4'', ''_LR2M5'',
      ''_LR2M6'', ''_LR2M7'', ''_LR3M0'', ''_LR3M1'', ''_LR3M2'', ''_LR3M3'', ''_LR4M0'',
      ''_LR4M1'', ''_LR4M2'', ''_LR4M3'', ''_LR5M0'', ''_LR5M1'', ''_LR6M0'', ''_LR6M1'',
      ''_LR7M0'', ''_LR8M0'', ''_LR9M0''] @ [''_WR6M0'', ''_WR7M0''] :: string list)"
  by code_simp

lemma distinct_prefixed: "distinct (map ((@) t) xs) = distinct xs"
  by (simp add: distinct_map inj_on_def)

lemma Id_all_created:
  "map Id (CreateWinnersBracket t g @ CreateLosersBracket t g @ CreateGrandFinal t g) =
   map ((@) t)
     ([''_WR1M0'', ''_WR1M1'', ''_WR1M2'', ''_WR1M3'', ''_WR1M4'', ''_WR1M5'', ''_WR1M6'',
      ''_WR1M7'', ''_WR1M8'', ''_WR1M9'', ''_WR1M10'', ''_WR1M11'', ''_WR1M12'', ''_WR1M13'',
      ''_WR1M14'', ''_WR1M15'', ''_WR2M0'', ''_WR2M1'', ''_WR2M2'', ''_WR2M3'', ''_WR2M4'',
      ''_WR2M5'', ''_WR2M6'', ''_WR2M7'', ''_WR3M0'', ''_WR3M1'', ''_WR3M2'', ''_WR3M3'',
      ''_WR4M0'', ''_WR4M1'', ''_WR5M0''] @
     [''_LR1M0'', ''_LR1M1'', ''_LR1M2'', ''_LR1M3'', ''_LR1M4'', ''_LR1M5'', ''_LR1M6'',
      ''_LR1M7'', ''_LR2M0'', ''_LR2M1'', ''_LR2M2'', ''_LR2M3'', ''_LR2M4'', ''_LR2M5'',
      ''_LR2M6'', ''_LR2M7'', ''_LR3M0'', ''_LR3M1'', ''_LR3M2'', ''_LR3M3'', ''_LR4M0'',
      ''_LR4M1'', ''_LR4M2'', ''_LR4M3'', ''_LR5M0'', ''_LR5M1'', ''_LR6M0'', ''_LR6M1'',
      ''_LR7M0'', ''_LR8M0'', ''_LR9M0''] @ [''_WR6M0'', ''_WR7M0''])"
  unfolding map_append Id_CreateWinnersBracket Id_CreateLosersBracket Id_CreateGrandFinal
  by (rule refl)

lemma distinct_Id_all_created:
  "distinct (map Id (CreateWinnersBracket t g @ CreateLosersBracket t g @ CreateGrandFinal t g))"
  unfolding Id_all_created distinct_prefixed by (rule distinct_suffixes)

lemma nonempty_Id_all_created:
  "[] \<notin> set (map Id (CreateWinnersBracket t g @ CreateLosersBracket t g
                        @ CreateGrandFinal t g))"
  unfolding Id_all_created by simp

subsection \<open>The fields of the generated matches\<close>

lemma loser_links_after_loops:
  "map_sum id (map NextMatchLoserId)
     (LinkBracketsLoserPaths_loops (CreateWinnersBracket t g) (CreateLosersBracket t g)) =
   Inr (map (\<lambda>s. Some (t @ s))
     [''_LR1M0'', ''_LR1M0'', ''_LR1M1'', ''_LR1M1'', ''_LR1M2'', ''_LR1M2'', ''_LR1M3'',
      ''_LR1M3'', ''_LR1M4'', ''_LR1M4'', ''_LR1M5'', ''_LR1M5'', ''_LR1M6'', ''_LR1M6'',
      ''_LR1M7'', ''_LR1M7'', ''_LR2M0'', ''_LR2M1'', ''_LR2M2'', ''_LR2M3'', ''_LR2M4'',
      ''_LR2M5'', ''_LR2M6'', ''_LR2M7'', ''_LR3M0'', ''_LR3M1'', ''_LR3M2'', ''_LR3M3'',
      ''_LR5M0'', ''_LR5M1''] @ [None])"
  by (simp add: LinkBracketsLoserPaths_loops_def link_loser_def at_vec_def modify_at_def
      gen_defs)

lemma winner_links_CreateWinnersBracket:
  "map NextMatchWinnerId (CreateWinnersBracket t g) = map (\<lambda>s. Some (t @ s))
     [''_WR2M0'', ''_WR2M0'', ''_WR2M1'', ''_WR2M1'', ''_WR2M2'', ''_WR2M2'', ''_WR2M3'',
      ''_WR2M3'', ''_WR2M4'', ''_WR2M4'', ''_WR2M5'', ''_WR2M5'', ''_WR2M6'', ''_WR2M6'',
      ''_WR2M7'', ''_WR2M7'', ''_WR3M0'', ''_WR3M0'', ''_WR3M1'', ''_WR3M1'', ''_WR3M2'',
      ''_WR3M2'', ''_WR3M3'', ''_WR3M3'', ''_WR4M0'', ''_WR4M0'', ''_WR4M1'', ''_WR4M1'',
      ''_WR5M0'', ''_WR5M0''] @ [None]"
  by (simp add: gen_defs)

lemma winner_links_CreateLosersBracket:
  "map NextMatchWinnerId (CreateLosersBracket t g) = map (\<lambda>s. Some (t @ s))
     [''_LR2M0'', ''_LR2M0'', ''_LR2M1'', ''_LR2M1'', ''_LR2M2'', ''_LR2M2'', ''_LR2M3'',
      ''_LR2M3'', ''_LR3M0'', ''_LR3M0'', ''_LR3M1'', ''_LR3M1'', ''_LR3M2'', ''_LR3M2'',
      ''_LR3M3'', ''_LR3M3'', ''_LR4M0'', ''_LR4M0'', ''_LR4M1'', ''_LR4M1'', ''_LR5M0'',
      ''_LR5M0'', ''_LR5M1'', ''_LR5M1'', ''_LR6M0'', ''_LR6M0'', ''_LR7M0'', ''_LR7M0'',
      ''_LR8M0'', ''_LR9M0''] @ [None]"
  by (simp add: gen_defs)

lemma loser_links_CreateLosersBracket:
  "set (map NextMatchLoserId (CreateLosersBracket t g)) = {None}"
  by (simp add: gen_defs)

lemma no_grand_final_in_brackets:
  "filter IsGrandFinal (CreateWinnersBracket t g @ CreateLosersBracket t g) = []"
  by (simp add: gen_defs)

lemma CreateGrandFinal_fields:
  "map (\<lambda>m. (Bracket m, RoundNumber m, MatchNumberInRound m, IsGrandFinal m, IsBracketReset m))
     (CreateGrandFinal t g) = [(WINNERS, 6, 0, True, False), (WINNERS, 7, 0, True, True)]"
  "map NextMatchWinnerId (CreateGrandFinal t g) = [Some (Id (CreateGrandFinal t g ! 1)), None]"
  "map NextMatchLoserId (CreateGrandFinal t g) = [None, None]"
  by (simp_all add: CreateGrandFinal_def gen_defs)

lemma round_sizes:
  "map (\<lambda>r. length (filter (\<lambda>m. RoundNumber m = r) (CreateWinnersBracket t g)))
     [1, 2, 3, 4, 5] = [16, 8, 4, 2, 1]"
  "map (\<lambda>r. length (filter (\<lambda>m. RoundNumber m = r) (CreateLosersBracket t g)))
     [1, 2, 3, 4, 5, 6, 7, 8, 9] = [8, 8, 4, 4, 2, 2, 1, 1, 1]"
  by (simp_all add: gen_defs)

lemma advance_rule:
  "map NextMatchWinnerId (CreateWinnersBracket t g) =
   map (\<lambda>m. if RoundNumber m < 5
             then Some (GenerateMatchId t WINNERS (RoundNumber m + 1) (MatchNumberInRound m div 2))
             else None) (CreateWinnersBracket t g)"
  "map NextMatchWinnerId (CreateLosersBracket t g) =
   map (\<lambda>m. if RoundNumber m < 9
             then Some (GenerateMatchId t LOSERS (RoundNumber m + 1) (MatchNumberInRound m div 2))
             else None) (CreateLosersBracket t g)"
  by (simp_all add: gen_defs)

subsection \<open>The claims about the generator\<close>

text \<open>
  C1. Claimed: for non-empty \<open>tournamentId\<close> and \<open>groupId\<close>, \<^verbatim>\<open>GenerateMatches\<close> returns
  exactly 63 matches, 31 of the winners bracket, then 30 of the losers bracket, then the 2
  grand-final matches, each with a non-empty id that occurs once. On the code, at
  \<open>(''T1'', ''G1'')\<close>: no sequence is returned, because the run reads
  \<^verbatim>\<open>losersMatches[32]\<close> outside a losers vector of 31 (not 30) matches; the three
  vectors it has built by then hold 31, 31 and 2 matches, 64 in all, whose ids are
  non-empty and pairwise different.
\<close>

theorem C1_GenerateMatches_T1_G1_returns_no_63_matches:
  "GenerateMatches ''T1'' ''G1'' = Inl (IndexOutOfBounds 32 31)
   \<and> length (CreateWinnersBracket ''T1'' ''G1'') = 31
   \<and> length (CreateLosersBracket ''T1'' ''G1'') = 31
   \<and> length (CreateGrandFinal ''T1'' ''G1'') = 2
   \<and> length (CreateWinnersBracket ''T1'' ''G1'' @ CreateLosersBracket ''T1'' ''G1''
               @ CreateGrandFinal ''T1'' ''G1'') = 64
   \<and> distinct (map Id (CreateWinnersBracket ''T1'' ''G1'' @ CreateLosersBracket ''T1'' ''G1''
                         @ CreateGrandFinal ''T1'' ''G1''))
   \<and> [] \<notin> set (map Id (CreateWinnersBracket ''T1'' ''G1'' @ CreateLosersBracket ''T1'' ''G1''
                         @ CreateGrandFinal ''T1'' ''G1''))"
  using GenerateMatches_out_of_bounds [of "''T1''" "''G1''"]
    distinct_Id_all_created [of "''T1''" "''G1''"]
    nonempty_Id_all_created [of "''T1''" "''G1''"]
  by (simp add: length_CreateWinnersBracket length_CreateLosersBracket
      length_CreateGrandFinal)

text \<open>
  C2. Claimed: the loser of winners round 3 match \<open>i\<close> is sent to the losers round 4
  match at flat offset \<open>16 + i\<close>, the loser of winners round 4 match \<open>i\<close> to the losers
  round 6 match at offset \<open>24 + i\<close>, and the loser of the winners final to the losers
  round 8 match at offset 32. On the code, for every input: after the four loops the
  winners round 3 matches (indices 24 to 27) point to the matches at offsets 16 to 19, which
  are the losers round 3 matches, and the winners round 4 matches (indices 28, 29) to the
  matches at offsets 24 and 25, which are the losers round 5 matches; the losers rounds 4
  and 6 are at offsets 20 to 23 and 26, 27; the winners final has no link, and offset 32
  is outside the losers vector.
\<close>

theorem C2_offsets_16_and_24_are_losers_rounds_3_and_5:
  "map_sum id (\<lambda>ws. map NextMatchLoserId (drop 24 ws))
     (LinkBracketsLoserPaths_loops (CreateWinnersBracket t g) (CreateLosersBracket t g)) =
     Inr [Some (GenerateMatchId t LOSERS 3 0), Some (GenerateMatchId t LOSERS 3 1),
          Some (GenerateMatchId t LOSERS 3 2), Some (GenerateMatchId t LOSERS 3 3),
          Some (GenerateMatchId t LOSERS 5 0), Some (GenerateMatchId t LOSERS 5 1), None]
   \<and> map (\<lambda>m. (Id m, RoundNumber m, MatchNumberInRound m))
         (take 4 (drop 16 (CreateLosersBracket t g))) =
       [(GenerateMatchId t LOSERS 3 0, 3, 0), (GenerateMatchId t LOSERS 3 1, 3, 1),
        (GenerateMatchId t LOSERS 3 2, 3, 2), (GenerateMatchId t LOSERS 3 3, 3, 3)]
   \<and> map (\<lambda>m. (Id m, RoundNumber m, MatchNumberInRound m))
         (take 2 (drop 24 (CreateLosersBracket t g))) =
       [(GenerateMatchId t LOSERS 5 0, 5, 0), (GenerateMatchId t LOSERS 5 1, 5, 1)]
   \<and> map (\<lambda>m. (RoundNumber m, MatchNumberInRound m))
         (take 4 (drop 20 (CreateLosersBracket t g))) = [(4, 0), (4, 1), (4, 2), (4, 3)]
   \<and> map (\<lambda>m. (RoundNumber m, MatchNumberInRound m))
         (take 2 (drop 26 (CreateLosersBracket t g))) = [(6, 0), (6, 1)]
   \<and> map (\<lambda>m. (RoundNumber m, MatchNumberInRound m))
         (drop 29 (CreateLosersBracket t g)) = [(8, 0), (9, 0)]
   \<and> at_vec (CreateLosersBracket t g) 32 = Inl (IndexOutOfBounds 32 31)"
proof -
  obtain ws where ws: "LinkBracketsLoserPaths_loops (CreateWinnersBracket t g)
                         (CreateLosersBracket t g) = Inr ws"
    using LinkBracketsLoserPaths_loops_defined
      [OF length_CreateWinnersBracket length_CreateLosersBracket] by blast
  have "map NextMatchLoserId (drop 24 ws) = drop 24 (map NextMatchLoserId ws)"
    by (simp add: drop_map)
  also have "\<dots> = [Some (GenerateMatchId t LOSERS 3 0), Some (GenerateMatchId t LOSERS 3 1),
          Some (GenerateMatchId t LOSERS 3 2), Some (GenerateMatchId t LOSERS 3 3),
          Some (GenerateMatchId t LOSERS 5 0), Some (GenerateMatchId t LOSERS 5 1), None]"
    using loser_links_after_loops [of t g] ws
    by (simp add: GenerateMatchId_def to_string_def to_string_nat.simps digit_char_def)
  finally have 1: "map_sum id (\<lambda>ws. map NextMatchLoserId (drop 24 ws))
     (LinkBracketsLoserPaths_loops (CreateWinnersBracket t g) (CreateLosersBracket t g)) =
     Inr [Some (GenerateMatchId t LOSERS 3 0), Some (GenerateMatchId t LOSERS 3 1),
          Some (GenerateMatchId t LOSERS 3 2), Some (GenerateMatchId t LOSERS 3 3),
          Some (GenerateMatchId t LOSERS 5 0), Some (GenerateMatchId t LOSERS 5 1), None]"
    using ws by simp
  have 2: "map (\<lambda>m. (Id m, RoundNumber m, MatchNumberInRound m))
         (take 4 (drop 16 (CreateLosersBracket t g))) =
       [(GenerateMatchId t LOSERS 3 0, 3, 0), (GenerateMatchId t LOSERS 3 1, 3, 1),
        (GenerateMatchId t LOSERS 3 2, 3, 2), (GenerateMatchId t LOSERS 3 3, 3, 3)]"
    by (simp add: gen_defs)
  have 3: "map (\<lambda>m. (Id m, RoundNumber m, MatchNumberInRound m))
         (take 2 (drop 24 (CreateLosersBracket t g))) =
       [(GenerateMatchId t LOSERS 5 0, 5, 0), (GenerateMatchId t LOSERS 5 1, 5, 1)]"
    by (simp add: gen_defs)
  have 4: "map (\<lambda>m. (RoundNumber m, MatchNumberInRound m))
         (take 4 (drop 20 (CreateLosersBracket t g))) = [(4, 0), (4, 1), (4, 2), (4, 3)]"
    by (simp add: gen_defs)
  have 5: "map (\<lambda>m. (RoundNumber m, MatchNumberInRound m))
         (take 2 (drop 26 (CreateLosersBracket t g))) = [(6, 0), (6, 1)]"
    by (simp add: gen_defs)
  have 6: "map (\<lambda>m. (RoundNumber m, MatchNumberInRound m))
         (drop 29 (CreateLosersBracket t g)) = [(8, 0), (9, 0)]"
    by (simp add: gen_defs)
  have 7: "at_vec (CreateLosersBracket t g) 32 = Inl (IndexOutOfBounds 32 31)"
    by (simp add: at_vec_def length_CreateLosersBracket)
  from 1 2 3 4 5 6 7 show ?thesis by blast
qed

text \<open>
  C3. Claimed: every index applied to a vector during \<^verbatim>\<open>GenerateMatches\<close> is in bounds,
  the index 32 into the losers vector included, so that \<^verbatim>\<open>GenerateMatches\<close> is defined
  on all inputs. On the code, for every input: the losers vector has 31 elements, the four
  loops of \<^verbatim>\<open>LinkBracketsLoserPaths\<close> stay in bounds, and its last statement reads
  index 32, which is out of bounds; \<^verbatim>\<open>GenerateMatches\<close> is defined on no input.
\<close>

theorem C3_index_32_out_of_bounds_on_every_input:
  "length (CreateLosersBracket t g) = 31
   \<and> at_vec (CreateLosersBracket t g) 32 = Inl (IndexOutOfBounds 32 31)
   \<and> (\<exists>ws. LinkBracketsLoserPaths_loops (CreateWinnersBracket t g) (CreateLosersBracket t g)
             = Inr ws)
   \<and> LinkBracketsLoserPaths (CreateWinnersBracket t g) (CreateLosersBracket t g)
       = Inl (IndexOutOfBounds 32 31)
   \<and> GenerateMatches t g = Inl (IndexOutOfBounds 32 31)"
proof -
  have len: "length (CreateLosersBracket t g) = 31"
    by (rule length_CreateLosersBracket)
  have rd: "at_vec (CreateLosersBracket t g) 32 = Inl (IndexOutOfBounds 32 31)"
    by (simp add: at_vec_def len)
  have loops: "\<exists>ws. LinkBracketsLoserPaths_loops (CreateWinnersBracket t g)
                      (CreateLosersBracket t g) = Inr ws"
    using LinkBracketsLoserPaths_loops_defined [OF length_CreateWinnersBracket len] by blast
  have link: "LinkBracketsLoserPaths (CreateWinnersBracket t g) (CreateLosersBracket t g)
                = Inl (IndexOutOfBounds 32 31)"
    by (rule LinkBracketsLoserPaths_out_of_bounds [OF length_CreateWinnersBracket len])
  from len rd loops link GenerateMatches_out_of_bounds [of t g] show ?thesis
    by blast
qed

text \<open>
  C4. Claimed: in the output every one of the 31 winners-bracket matches has a
  \<open>nextMatchLoserId\<close> that is the id of a losers-bracket match of the output, and every
  losers-bracket match has none. On the code, for every input: the four loops give the 30
  winners matches of rounds 1 to 4 the id of a losers-bracket match, no losers-bracket
  match has a \<open>nextMatchLoserId\<close>, but the winners final (index 30) still has none after
  the loops, and the statement that is to set it reads \<^verbatim>\<open>losersMatches[32]\<close> out of
  bounds, so that \<^verbatim>\<open>LinkBracketsLoserPaths\<close> does not complete.
\<close>

theorem C4_winners_final_gets_no_loser_link:
  "map_sum id (\<lambda>ws. NextMatchLoserId (ws ! 30))
     (LinkBracketsLoserPaths_loops (CreateWinnersBracket t g) (CreateLosersBracket t g)) =
     Inr None
   \<and> LinkBracketsLoserPaths (CreateWinnersBracket t g) (CreateLosersBracket t g) =
       Inl (IndexOutOfBounds 32 31)
   \<and> map_sum id (\<lambda>ws. None \<notin> set (map NextMatchLoserId (take 30 ws)) \<and>
                       set (map NextMatchLoserId (take 30 ws))
                         \<subseteq> Some ` set (map Id (CreateLosersBracket t g)))
       (LinkBracketsLoserPaths_loops (CreateWinnersBracket t g) (CreateLosersBracket t g)) =
       Inr True
   \<and> set (map NextMatchLoserId (CreateLosersBracket t g)) = {None}"
proof -
  obtain ws where ws: "LinkBracketsLoserPaths_loops (CreateWinnersBracket t g)
                         (CreateLosersBracket t g) = Inr ws" and len: "length ws = 31"
    using LinkBracketsLoserPaths_loops_defined
      [OF length_CreateWinnersBracket length_CreateLosersBracket] by blast
  have links: "map NextMatchLoserId ws = map (\<lambda>s. Some (t @ s))
     [''_LR1M0'', ''_LR1M0'', ''_LR1M1'', ''_LR1M1'', ''_LR1M2'', ''_LR1M2'', ''_LR1M3'',
      ''_LR1M3'', ''_LR1M4'', ''_LR1M4'', ''_LR1M5'', ''_LR1M5'', ''_LR1M6'', ''_LR1M6'',
      ''_LR1M7'', ''_LR1M7'', ''_LR2M0'', ''_LR2M1'', ''_LR2M2'', ''_LR2M3'', ''_LR2M4'',
      ''_LR2M5'', ''_LR2M6'', ''_LR2M7'', ''_LR3M0'', ''_LR3M1'', ''_LR3M2'', ''_LR3M3'',
      ''_LR5M0'', ''_LR5M1''] @ [None]"
    using loser_links_after_loops [of t g] ws by simp
  have "NextMatchLoserId (ws ! 30) = map NextMatchLoserId ws ! 30"
    using len by simp
  also have "\<dots> = None"
    unfolding links by simp
  finally have 1: "map_sum id (\<lambda>ws. NextMatchLoserId (ws ! 30))
     (LinkBracketsLoserPaths_loops (CreateWinnersBracket t g) (CreateLosersBracket t g)) =
     Inr None"
    using ws by simp
  have 2: "LinkBracketsLoserPaths (CreateWinnersBracket t g) (CreateLosersBracket t g) =
       Inl (IndexOutOfBounds 32 31)"
    by (rule LinkBracketsLoserPaths_out_of_bounds
        [OF length_CreateWinnersBracket length_CreateLosersBracket])
  have tk: "map NextMatchLoserId (take 30 ws) = take 30 (map NextMatchLoserId ws)"
    by (simp add: take_map)
  have a: "None \<notin> set (map NextMatchLoserId (take 30 ws))"
    unfolding tk links by simp
  have b: "set (map NextMatchLoserId (take 30 ws))
             \<subseteq> Some ` set (map Id (CreateLosersBracket t g))"
    unfolding tk links Id_CreateLosersBracket by simp
  from a b have 3: "map_sum id (\<lambda>ws. None \<notin> set (map NextMatchLoserId (take 30 ws)) \<and>
                       set (map NextMatchLoserId (take 30 ws))
                         \<subseteq> Some ` set (map Id (CreateLosersBracket t g)))
       (LinkBracketsLoserPaths_loops (CreateWinnersBracket t g) (CreateLosersBracket t g)) =
       Inr True"
    using ws by simp
  from 1 2 3 loser_links_CreateLosersBracket [of t g] show ?thesis by blast
qed

text \<open>
  C5. Claimed: the output has exactly two grand-final matches, of rounds 6 and 7, both of
  bracket WINNERS, the first not a bracket reset and the second one; the winners round 5
  match and the losers round 9 match both have the id of grand-final match 1 as
  \<open>nextMatchWinnerId\<close>, and grand-final match 1 has the id of grand-final match 2. On the
  code, for every input: \<^verbatim>\<open>CreateGrandFinal\<close> builds the two matches as claimed and no
  bracket match is flagged as a grand final, but the losers round 9 match is at index 30
  with no \<open>nextMatchWinnerId\<close>, and the statement of step 5 that is to link the losers
  final writes \<^verbatim>\<open>losersMatches[32]\<close>, out of bounds; no output is produced.
\<close>

theorem C5_losers_round_9_is_never_linked_to_the_grand_final:
  "map (\<lambda>m. (Bracket m, RoundNumber m, MatchNumberInRound m, IsGrandFinal m, IsBracketReset m))
     (CreateGrandFinal t g) = [(WINNERS, 6, 0, True, False), (WINNERS, 7, 0, True, True)]
   \<and> map NextMatchWinnerId (CreateGrandFinal t g) = [Some (Id (CreateGrandFinal t g ! 1)), None]
   \<and> filter IsGrandFinal (CreateWinnersBracket t g @ CreateLosersBracket t g) = []
   \<and> (RoundNumber (CreateLosersBracket t g ! 30), NextMatchWinnerId (CreateLosersBracket t g ! 30))
       = (9, None)
   \<and> modify_at (CreateLosersBracket t g) 32
         (\<lambda>m. m\<lparr>NextMatchWinnerId := Some (Id (CreateGrandFinal t g ! 0))\<rparr>)
       = Inl (IndexOutOfBounds 32 31)
   \<and> GenerateMatches t g = Inl (IndexOutOfBounds 32 31)"
proof -
  have 1: "(RoundNumber (CreateLosersBracket t g ! 30),
            NextMatchWinnerId (CreateLosersBracket t g ! 30)) = (9, None)"
    by (simp add: gen_defs)
  have 2: "modify_at (CreateLosersBracket t g) 32
         (\<lambda>m. m\<lparr>NextMatchWinnerId := Some (Id (CreateGrandFinal t g ! 0))\<rparr>)
       = Inl (IndexOutOfBounds 32 31)"
    by (simp add: modify_at_def length_CreateLosersBracket)
  from 1 2 CreateGrandFinal_fields(1,2) [of t g] no_grand_final_in_brackets [of t g]
    GenerateMatches_out_of_bounds [of t g]
  show ?thesis by blast
qed

text \<open>
  C6. Claimed: in the output the winners bracket has 5 rounds of sizes 16, 8, 4, 2, 1 and
  the losers bracket 9 rounds of sizes 8, 8, 4, 4, 2, 2, 1, 1, 1; within a bracket the
  winner of round \<open>r\<close> match \<open>m\<close> goes to round \<open>r + 1\<close> match \<open>m div 2\<close> below the last
  round; and every match but the grand-final ones and the losers round 9 match has a
  \<open>nextMatchWinnerId\<close> that is an id of the output. On the code, for every input: the
  vectors built by \<^verbatim>\<open>CreateWinnersBracket\<close> and \<^verbatim>\<open>CreateLosersBracket\<close> have these
  round sizes and these links, and the links of all but the last match of each vector are
  ids of the same vector; but the winners round 5 match has no \<open>nextMatchWinnerId\<close> in
  them (step 5 is to set it), and no output is produced.
\<close>

theorem C6_round_sizes_and_winner_links_of_the_brackets:
  "map (\<lambda>r. length (filter (\<lambda>m. RoundNumber m = r) (CreateWinnersBracket t g)))
     [1, 2, 3, 4, 5] = [16, 8, 4, 2, 1]
   \<and> map (\<lambda>r. length (filter (\<lambda>m. RoundNumber m = r) (CreateLosersBracket t g)))
       [1, 2, 3, 4, 5, 6, 7, 8, 9] = [8, 8, 4, 4, 2, 2, 1, 1, 1]
   \<and> map NextMatchWinnerId (CreateWinnersBracket t g) =
       map (\<lambda>m. if RoundNumber m < 5
                 then Some (GenerateMatchId t WINNERS (RoundNumber m + 1)
                              (MatchNumberInRound m div 2))
                 else None) (CreateWinnersBracket t g)
   \<and> map NextMatchWinnerId (CreateLosersBracket t g) =
       map (\<lambda>m. if RoundNumber m < 9
                 then Some (GenerateMatchId t LOSERS (RoundNumber m + 1)
                              (MatchNumberInRound m div 2))
                 else None) (CreateLosersBracket t g)
   \<and> set (map NextMatchWinnerId (take 30 (CreateWinnersBracket t g)))
       \<subseteq> Some ` set (map Id (CreateWinnersBracket t g))
   \<and> set (map NextMatchWinnerId (take 30 (CreateLosersBracket t g)))
       \<subseteq> Some ` set (map Id (CreateLosersBracket t g))
   \<and> NextMatchWinnerId (CreateWinnersBracket t g ! 30) = None
   \<and> GenerateMatches t g = Inl (IndexOutOfBounds 32 31)"
proof -
  have w: "set (map NextMatchWinnerId (take 30 (CreateWinnersBracket t g)))
             \<subseteq> Some ` set (map Id (CreateWinnersBracket t g))"
    unfolding take_map [symmetric] winner_links_CreateWinnersBracket Id_CreateWinnersBracket
    by simp
  have l: "set (map NextMatchWinnerId (take 30 (CreateLosersBracket t g)))
             \<subseteq> Some ` set (map Id (CreateLosersBracket t g))"
    unfolding take_map [symmetric] winner_links_CreateLosersBracket Id_CreateLosersBracket
    by simp
  have "NextMatchWinnerId (CreateWinnersBracket t g ! 30) =
          map NextMatchWinnerId (CreateWinnersBracket t g) ! 30"
    by (simp add: length_CreateWinnersBracket)
  also have "\<dots> = None"
    unfolding winner_links_CreateWinnersBracket by simp
  finally have f: "NextMatchWinnerId (CreateWinnersBracket t g ! 30) = None" .
  from w l f round_sizes [of t g] advance_rule [of t g] GenerateMatches_out_of_bounds [of t g]
  show ?thesis by blast
qed

text \<open>
  C10. Claimed: for every \<open>tournamentId\<close> and group ids \<open>g1\<close>, \<open>g2\<close> the sequence of match
  ids produced by \<^verbatim>\<open>GenerateMatches\<close> is the same for both groups. On the code, for
  every input: the ids of the three vectors that \<^verbatim>\<open>GenerateMatches\<close> builds do not
  depend on the group id, but neither call produces a sequence.
\<close>

theorem C10_ids_are_independent_of_groupId_but_no_sequence_is_produced:
  "map Id (CreateWinnersBracket t g1) = map Id (CreateWinnersBracket t g2)
   \<and> map Id (CreateLosersBracket t g1) = map Id (CreateLosersBracket t g2)
   \<and> map Id (CreateGrandFinal t g1) = map Id (CreateGrandFinal t g2)
   \<and> GenerateMatches t g1 = Inl (IndexOutOfBounds 32 31)
   \<and> GenerateMatches t g2 = Inl (IndexOutOfBounds 32 31)"
  by (simp add: Id_CreateWinnersBracket Id_CreateLosersBracket Id_CreateGrandFinal
      GenerateMatches_out_of_bounds)

section \<open>Properties of the match delegate\<close>

lemma to_string_nat_values:
  "to_string_nat 31 = ''31''" "to_string_nat 32 = ''32''" "to_string_nat 62 = ''62''"
  by (simp_all add: to_string_nat.simps digit_char_def)

text \<open>
  For a delegate whose strategy yields 63 matches, when the store returns another number
  of created ids: the error line is printed by \<^verbatim>\<open>CreateTournamentMatches\<close>, which
  then returns normally, and \<^verbatim>\<open>ProcessTeamAddition\<close> prints its success line.
\<close>

lemma ProcessTeamAddition_created_count_mismatch:
  assumes "FindByTournamentIdAndGroupId (groupRepository d) (tournamentId ev) (groupId ev)
             = Inr (Some grp)"
    and "length (Teams grp) = 32"
    and "MatchesExistForTournament (matchRepository d) (tournamentId ev) (groupId ev)
           = Inr False"
    and "matchStrategy d (tournamentId ev) (groupId ev) = Inr ms"
    and "length ms = 63"
    and "CreateBulk (matchRepository d) ms = Inr ids"
    and "length ids \<noteq> 63"
  shows "ProcessTeamAddition d ev =
    ([Call_FindByTournamentIdAndGroupId (tournamentId ev) (groupId ev),
      Println (''Tournament '' @ tournamentId ev @ '' has 32 teams''),
      Call_MatchesExistForTournament (tournamentId ev) (groupId ev),
      Println (''Creating matches for tournament: '' @ tournamentId ev),
      Call_GenerateMatches (tournamentId ev) (groupId ev),
      Call_CreateBulk ms,
      Println (''ERROR: Expected to create 63 matches, created '' @ to_string_nat (length ids)),
      Println (''Successfully created 63 matches for tournament: '' @ tournamentId ev)],
     Inr ())"
  using assms
  by (simp add: ProcessTeamAddition_def CreateTournamentMatches_def Let_def
      to_string_nat_values)

text \<open>
  The delegate that the constructor builds never gets that far: with a group of 32 teams
  and no matches yet, its run ends in the out-of-bounds access of \<^verbatim>\<open>GenerateMatches\<close>,
  before the store is asked to create anything and before any success line.
\<close>

lemma ProcessTeamAddition_new_stops_in_GenerateMatches:
  assumes "FindByTournamentIdAndGroupId groupRepo (tournamentId ev) (groupId ev)
             = Inr (Some grp)"
    and "length (Teams grp) = 32"
    and "MatchesExistForTournament matchRepo (tournamentId ev) (groupId ev) = Inr False"
  shows "ProcessTeamAddition (MatchDelegate_new matchRepo groupRepo) ev =
    ([Call_FindByTournamentIdAndGroupId (tournamentId ev) (groupId ev),
      Println (''Tournament '' @ tournamentId ev @ '' has 32 teams''),
      Call_MatchesExistForTournament (tournamentId ev) (groupId ev),
      Println (''Creating matches for tournament: '' @ tournamentId ev),
      Call_GenerateMatches (tournamentId ev) (groupId ev)],
     Inl (IndexOutOfBounds 32 31))"
  using assms
  by (simp add: ProcessTeamAddition_def CreateTournamentMatches_def Let_def
      MatchDelegate_new_def GenerateMatches_out_of_bounds catch_rethrow_def
      to_string_nat_values)

text \<open>
  C8. When the group exists with exactly 32 teams and the match store reports that matches
  already exist for the tournament and group, \<^verbatim>\<open>ProcessTeamAddition\<close> prints that they
  exist and returns without error; it calls neither the generator nor the bulk creation.
\<close>

theorem C8_existing_matches_make_ProcessTeamAddition_a_no_op:
  assumes "FindByTournamentIdAndGroupId (groupRepository d) (tournamentId ev) (groupId ev)
             = Inr (Some grp)"
    and "length (Teams grp) = 32"
    and "MatchesExistForTournament (matchRepository d) (tournamentId ev) (groupId ev)
           = Inr True"
  shows "ProcessTeamAddition d ev =
      ([Call_FindByTournamentIdAndGroupId (tournamentId ev) (groupId ev),
        Println (''Tournament '' @ tournamentId ev @ '' has 32 teams''),
        Call_MatchesExistForTournament (tournamentId ev) (groupId ev),
        Println (''Matches already exist for tournament: '' @ tournamentId ev)],
       Inr ())
    \<and> (\<forall>t g. Call_GenerateMatches t g \<notin> set (fst (ProcessTeamAddition d ev)))
    \<and> (\<forall>ms. Call_CreateBulk ms \<notin> set (fst (ProcessTeamAddition d ev)))"
  using assms
  by (simp add: ProcessTeamAddition_def Let_def to_string_nat_values)

theorem C8_existing_matches_witness:
  "FindByTournamentIdAndGroupId
     (groupRepository
        (MatchDelegate_new
           \<lparr>CreateBulk = (\<lambda>ms. Inr (map Id ms)),
            MatchesExistForTournament = (\<lambda>t g. Inr True)\<rparr>
           \<lparr>FindByTournamentIdAndGroupId = (\<lambda>t g. Inr (Some \<lparr>Teams = replicate 32 ()\<rparr>))\<rparr>))
     ''T1'' ''G1'' = Inr (Some \<lparr>Teams = replicate 32 ()\<rparr>)
   \<and> length (Teams \<lparr>Teams = replicate 32 ()\<rparr>) = 32
   \<and> MatchesExistForTournament
       (matchRepository
          (MatchDelegate_new
             \<lparr>CreateBulk = (\<lambda>ms. Inr (map Id ms)),
              MatchesExistForTournament = (\<lambda>t g. Inr True)\<rparr>
             \<lparr>FindByTournamentIdAndGroupId = (\<lambda>t g. Inr (Some \<lparr>Teams = replicate 32 ()\<rparr>))\<rparr>))
       ''T1'' ''G1'' = Inr True
   \<and> ProcessTeamAddition
       (MatchDelegate_new
          \<lparr>CreateBulk = (\<lambda>ms. Inr (map Id ms)),
           MatchesExistForTournament = (\<lambda>t g. Inr True)\<rparr>
          \<lparr>FindByTournamentIdAndGroupId = (\<lambda>t g. Inr (Some \<lparr>Teams = replicate 32 ()\<rparr>))\<rparr>)
       \<lparr>tournamentId = ''T1'', groupId = ''G1''\<rparr> =
      ([Call_FindByTournamentIdAndGroupId ''T1'' ''G1'',
        Println ''Tournament T1 has 32 teams'',
        Call_MatchesExistForTournament ''T1'' ''G1'',
        Println ''Matches already exist for tournament: T1''],
       Inr ())"
  using C8_existing_matches_make_ProcessTeamAddition_a_no_op
    [of "MatchDelegate_new
           \<lparr>CreateBulk = (\<lambda>ms. Inr (map Id ms)),
            MatchesExistForTournament = (\<lambda>t g. Inr True)\<rparr>
           \<lparr>FindByTournamentIdAndGroupId = (\<lambda>t g. Inr (Some \<lparr>Teams = replicate 32 ()\<rparr>))\<rparr>"
        "\<lparr>tournamentId = ''T1'', groupId = ''G1''\<rparr>" "\<lparr>Teams = replicate 32 ()\<rparr>"]
  by (simp add: MatchDelegate_new_def)

text \<open>
  C9. When the group exists and the number of its teams is not 32, \<^verbatim>\<open>ProcessTeamAddition\<close>
  prints that it is waiting for more teams and returns without error; it calls neither the
  generator nor the bulk creation (nor the existence check).
\<close>

theorem C9_other_team_counts_make_ProcessTeamAddition_wait:
  assumes "FindByTournamentIdAndGroupId (groupRepository d) (tournamentId ev) (groupId ev)
             = Inr (Some grp)"
    and "length (Teams grp) \<noteq> 32"
  shows "ProcessTeamAddition d ev =
      ([Call_FindByTournamentIdAndGroupId (tournamentId ev) (groupId ev),
        Println (''Tournament '' @ tournamentId ev @ '' has ''
                 @ to_string_nat (length (Teams grp)) @ '' teams''),
        Println (''Waiting for more teams. Current: '' @ to_string_nat (length (Teams grp))
                 @ '', Required: 32'')],
       Inr ())
    \<and> (\<forall>t g. Call_GenerateMatches t g \<notin> set (fst (ProcessTeamAddition d ev)))
    \<and> (\<forall>ms. Call_CreateBulk ms \<notin> set (fst (ProcessTeamAddition d ev)))"
  using assms
  by (simp add: ProcessTeamAddition_def Let_def)

theorem C9_other_team_counts_witness:
  "FindByTournamentIdAndGroupId
     (groupRepository
        (MatchDelegate_new
           \<lparr>CreateBulk = (\<lambda>ms. Inr (map Id ms)),
            MatchesExistForTournament = (\<lambda>t g. Inr False)\<rparr>
           \<lparr>FindByTournamentIdAndGroupId = (\<lambda>t g. Inr (Some \<lparr>Teams = replicate 31 ()\<rparr>))\<rparr>))
     ''T1'' ''G1'' = Inr (Some \<lparr>Teams = replicate 31 ()\<rparr>)
   \<and> length (Teams \<lparr>Teams = replicate 31 ()\<rparr>) \<noteq> 32
   \<and> ProcessTeamAddition
       (MatchDelegate_new
          \<lparr>CreateBulk = (\<lambda>ms. Inr (map Id ms)),
           MatchesExistForTournament = (\<lambda>t g. Inr False)\<rparr>
          \<lparr>FindByTournamentIdAndGroupId = (\<lambda>t g. Inr (Some \<lparr>Teams = replicate 31 ()\<rparr>))\<rparr>)
       \<lparr>tournamentId = ''T1'', groupId = ''G1''\<rparr> =
      ([Call_FindByTournamentIdAndGroupId ''T1'' ''G1'',
        Println ''Tournament T1 has 31 teams'',
        Println ''Waiting for more teams. Current: 31, Required: 32''],
       Inr ())"
  using C9_other_team_counts_make_ProcessTeamAddition_wait
    [of "MatchDelegate_new
           \<lparr>CreateBulk = (\<lambda>ms. Inr (map Id ms)),
            MatchesExistForTournament = (\<lambda>t g. Inr False)\<rparr>
           \<lparr>FindByTournamentIdAndGroupId = (\<lambda>t g. Inr (Some \<lparr>Teams = replicate 31 ()\<rparr>))\<rparr>"
        "\<lparr>tournamentId = ''T1'', groupId = ''G1''\<rparr>" "\<lparr>Teams = replicate 31 ()\<rparr>"]
  by (simp add: MatchDelegate_new_def to_string_nat_values)

end
